theory Spec2Isabelle
  imports Main "HOL-Library.Word" "HOL-Library.Sublist"
begin

section \<open>The intermediate representation read by the pass\<close>

text \<open>
  The pass \<^verbatim>\<open>BoundsCheck\<close> (file \<^verbatim>\<open>src/pass/BoundsCheck/BoundsCheck.cpp\<close>) reads LLVM IR
  through the LLVM API.  Only the part of the IR that the pass inspects is embedded.

  \<^item> \<^verbatim>\<open>uint64_t\<close> (the result type of \<^verbatim>\<open>getArrayNumElements()\<close> and of
    \<^verbatim>\<open>getZExtValue()\<close>) is a 64-bit word.
  \<^item> \<^verbatim>\<open>auto arrayLength = -1;\<close> and \<^verbatim>\<open>auto desiredIndex = -1;\<close> declare two variables of
    type \<^verbatim>\<open>int\<close>: a 32-bit word, read as two's complement by the comparisons.
\<close>

type_synonym uint64 = "64 word"
type_synonym int32 = "32 word"

datatype ty =
    VoidTy
  | IntegerTy nat
  | PointerTy ty
  | ArrayTy uint64 ty
  | StructTy "ty list"
  | VectorTy nat ty
  | FunctionTy ty "ty list" bool

text \<open>
  A \<^verbatim>\<open>Value\<close> is either a \<^verbatim>\<open>ConstantInt\<close> or something else (a register, an argument, a
  global, any other constant), told apart by a number.  The field of \<open>ConstantInt\<close> is what
  \<^verbatim>\<open>getZExtValue()\<close> returns: the bits of the constant, zero-extended to 64 bits.
\<close>

datatype val = ConstantInt uint64 | NonConstantInt nat

text \<open>
  A \<^verbatim>\<open>GetElementPtrInst\<close>: operand 0 is the base pointer, operands 1, 2, ... are the
  indices.  The base pointer has pointer type (or vector-of-pointers type), so it is never
  a \<^verbatim>\<open>ConstantInt\<close>; it is kept as the number of a \<open>NonConstantInt\<close> value.
\<close>

record gep =
  pointerOperand :: nat
  pointerOperandType :: ty
  indices :: "val list"

datatype instr = GetElementPtrInst gep | OtherInst nat

type_synonym basic_block = "instr list"

datatype linkage = ExternalLinkage | InternalLinkage
datatype attribute = NoReturn
datatype calling_conv = C | Fast

record func =
  fname :: string
  ftype :: ty
  flinkage :: linkage
  fnAttrs :: "attribute list"
  callingConv :: calling_conv
  blocks :: "basic_block list"

text \<open>
  A \<^verbatim>\<open>Module\<close> owns its list of functions and its symbol table.  Of the symbol table
  (\<^verbatim>\<open>ValueSymbolTable\<close>) the model keeps the names in use in the module (those of its
  functions, global variables and aliases) and the counter \<^verbatim>\<open>LastUnique\<close> from which
  LLVM draws the suffix of a name that is already taken.
\<close>

record llvm_module =
  FunctionList :: "func list"
  ValSymTab :: "string list"
  LastUnique :: nat

text \<open>
  A \<^verbatim>\<open>Module *\<close> is a number; the store gives each module.
  A \<^verbatim>\<open>Function *\<close> is the module that owns the function (\<^verbatim>\<open>getParent()\<close>) and the
  function's position in that module's function list.
\<close>

type_synonym module_ptr = nat
type_synonym function_ptr = "module_ptr \<times> nat"
type_synonym store = "module_ptr \<Rightarrow> llvm_module"

definition getParent :: "function_ptr \<Rightarrow> module_ptr" where
  "getParent F = fst F"

definition deref :: "store \<Rightarrow> function_ptr \<Rightarrow> func" where
  "deref s F = FunctionList (s (fst F)) ! snd F"

subsection \<open>The LLVM accessors the pass calls\<close>

definition dyn_cast_PointerType :: "ty \<Rightarrow> ty option" where
  "dyn_cast_PointerType t = (case t of PointerTy e \<Rightarrow> Some (PointerTy e) | _ \<Rightarrow> None)"

fun getPointerElementType :: "ty \<Rightarrow> ty" where
  "getPointerElementType (PointerTy e) = e"
| "getPointerElementType t = t"

definition dyn_cast_ArrayType :: "ty \<Rightarrow> ty option" where
  "dyn_cast_ArrayType t = (case t of ArrayTy n e \<Rightarrow> Some (ArrayTy n e) | _ \<Rightarrow> None)"

fun getArrayNumElements :: "ty \<Rightarrow> uint64" where
  "getArrayNumElements (ArrayTy n e) = n"
| "getArrayNumElements t = 0"

definition dyn_cast_ConstantInt :: "val \<Rightarrow> uint64 option" where
  "dyn_cast_ConstantInt v = (case v of ConstantInt c \<Rightarrow> Some c | NonConstantInt k \<Rightarrow> None)"

definition dyn_cast_GetElementPtrInst :: "instr \<Rightarrow> gep option" where
  "dyn_cast_GetElementPtrInst BI = (case BI of GetElementPtrInst g \<Rightarrow> Some g | OtherInst k \<Rightarrow> None)"

definition getNumIndices :: "gep \<Rightarrow> nat" where
  "getNumIndices GEP = length (indices GEP)"

definition getOperand :: "gep \<Rightarrow> nat \<Rightarrow> val" where
  "getOperand GEP k = (NonConstantInt (pointerOperand GEP) # indices GEP) ! k"

definition hasAllConstantIndices :: "gep \<Rightarrow> bool" where
  "hasAllConstantIndices GEP = list_all (\<lambda>v. dyn_cast_ConstantInt v \<noteq> None) (indices GEP)"

section \<open>The diagnostic message\<close>

text \<open>
  \<^verbatim>\<open>stringFormat\<close> calls \<^verbatim>\<open>vsnprintf\<close> twice: once with no buffer, for the length, and once
  into a buffer of \<open>len + 1\<close> bytes.  \<open>formatted\<close> is the text \<^verbatim>\<open>vsnprintf\<close> produces for
  the directives the pass uses: \<^verbatim>\<open>%d\<close> prints the next \<^verbatim>\<open>int\<close> argument in decimal, any
  other character is copied.  (A \<^verbatim>\<open>%d\<close> with no argument left is undefined in C and never
  happens in the pass; it is copied.)
\<close>

fun decimal :: "nat \<Rightarrow> string" where
  "decimal n = (if n < 10 then [''0123456789'' ! n]
                else decimal (n div 10) @ [''0123456789'' ! (n mod 10)])"

declare decimal.simps [simp del]

definition showInt :: "int \<Rightarrow> string" where
  "showInt i = (if i < 0 then CHR ''-'' # decimal (nat (- i)) else decimal (nat i))"

fun formatted :: "string \<Rightarrow> int list \<Rightarrow> string" where
  "formatted [] args = []"
| "formatted [c] args = [c]"
| "formatted (c # d # fmt) [] = c # formatted (d # fmt) []"
| "formatted (c # d # fmt) (a # args) =
     (if c = CHR ''%'' \<and> d = CHR ''d'' then showInt a @ formatted fmt args
      else c # formatted (d # fmt) (a # args))"

definition vsnprintf :: "nat \<Rightarrow> string \<Rightarrow> int list \<Rightarrow> string \<times> nat" where
  "vsnprintf n format args =
     (take (n - 1) (formatted format args), length (formatted format args))"

definition stringFormat :: "string \<Rightarrow> int list \<Rightarrow> string" where
  "stringFormat format args =
     (let len = snd (vsnprintf 0 format args);
          vec = fst (vsnprintf (len + 1) format args)
      in vec)"

section \<open>The analysis of one pointer-indexing instruction\<close>

datatype error = FatalError string | NullDereference

text \<open>The lines written to the debug stream by \<^verbatim>\<open>LLVM_DEBUG\<close>.\<close>

datatype dbg =
    Processing string
  | GEPInstruction gep
  | ArrayHasLength int32
  | ConstantIndicesOnly
  | TriesToAssignToIndex int32
  | CorrectBounds
  | NotAnalysed
  | BlankLine

text \<open>
  Lines 62 and 66 to 72: \<open>arrayLength\<close> starts at \<open>-1\<close> and is overwritten by the number
  of elements when the base pointer's type is a pointer to an array.  The assignment
  converts \<^verbatim>\<open>uint64_t\<close> to \<^verbatim>\<open>int\<close>: it keeps the low 32 bits.
\<close>

definition recoverArrayLength :: "gep \<Rightarrow> dbg list \<times> int32" where
  "recoverArrayLength GEP =
     (case dyn_cast_PointerType (pointerOperandType GEP) of
        Some pointerOperandType' \<Rightarrow>
          (case dyn_cast_ArrayType (getPointerElementType pointerOperandType') of
             Some arrayElementType \<Rightarrow>
               (let arrayLength = ucast (getArrayNumElements arrayElementType)
                in ([ArrayHasLength arrayLength], arrayLength))
           | None \<Rightarrow> ([], - 1))
      | None \<Rightarrow> ([], - 1))"

text \<open>
  Lines 63 and 75 to 80: \<open>desiredIndex\<close> starts at \<open>-1\<close> and is overwritten when all
  indices are constant.  \<^verbatim>\<open>constantInt->getZExtValue()\<close> dereferences the result of the
  \<^verbatim>\<open>dyn_cast\<close> without a test: a null result is the error \<open>NullDereference\<close>.  The
  assignment again keeps the low 32 bits of the \<^verbatim>\<open>uint64_t\<close>.
\<close>

definition recoverDesiredIndex :: "gep \<Rightarrow> dbg list \<times> (error + int32)" where
  "recoverDesiredIndex GEP =
     (if hasAllConstantIndices GEP then
        (case dyn_cast_ConstantInt (getOperand GEP (getNumIndices GEP)) of
           None \<Rightarrow> ([ConstantIndicesOnly], Inl NullDereference)
         | Some constantInt \<Rightarrow>
             (let desiredIndex = ucast constantInt
              in ([ConstantIndicesOnly, TriesToAssignToIndex desiredIndex], Inr desiredIndex)))
      else ([], Inr (- 1)))"

text \<open>Line 85: the text handed to \<^verbatim>\<open>report_fatal_error\<close>; \<^verbatim>\<open>%d\<close> prints an \<^verbatim>\<open>int\<close>.\<close>

definition message :: "int32 \<Rightarrow> int32 \<Rightarrow> string" where
  "message desiredIndex arrayLength =
     stringFormat ''Wrong assignment to index %d (zero-based) while array has length %d! Aborting...''
       [sint desiredIndex, sint arrayLength]"

text \<open>
  Lines 83 to 91: the decision.  Both comparisons with 0 and the comparison of the two
  variables are comparisons of \<^verbatim>\<open>int\<close>s, hence signed.
\<close>

definition decide :: "int32 \<Rightarrow> int32 \<Rightarrow> dbg list \<times> (error + unit)" where
  "decide arrayLength desiredIndex =
     (if 0 \<le>s arrayLength \<and> 0 \<le>s desiredIndex then
        (if arrayLength \<le>s desiredIndex
         then ([], Inl (FatalError (message desiredIndex arrayLength)))
         else ([CorrectBounds], Inr ()))
      else ([NotAnalysed], Inr ()))"

text \<open>The body of the loop over the work list (lines 61 to 93).\<close>

definition analyseGEP :: "gep \<Rightarrow> dbg list \<times> (error + unit)" where
  "analyseGEP GEP =
     (case recoverArrayLength GEP of
        (log1, arrayLength) \<Rightarrow>
          (case recoverDesiredIndex GEP of
             (log2, Inl e) \<Rightarrow> (GEPInstruction GEP # log1 @ log2, Inl e)
           | (log2, Inr desiredIndex) \<Rightarrow>
               (case decide arrayLength desiredIndex of
                  (log3, Inl e) \<Rightarrow> (GEPInstruction GEP # log1 @ log2 @ log3, Inl e)
                | (log3, Inr u) \<Rightarrow>
                    (GEPInstruction GEP # log1 @ log2 @ log3 @ [BlankLine], Inr ()))))"

text \<open>The loop of line 60: the work list is read front to back; an error ends the run.\<close>

fun processWorkList :: "gep list \<Rightarrow> dbg list \<times> (error + unit)" where
  "processWorkList [] = ([], Inr ())"
| "processWorkList (GEP # WorkList) =
     (case analyseGEP GEP of
        (log, Inl e) \<Rightarrow> (log, Inl e)
      | (log, Inr u) \<Rightarrow>
          (case processWorkList WorkList of (log', r) \<Rightarrow> (log @ log', r)))"

section \<open>Collecting the work list\<close>

text \<open>Lines 50 to 56: two nested loops, each match appended with \<^verbatim>\<open>push_back\<close>.\<close>

fun collectBlock :: "instr list \<Rightarrow> gep list \<Rightarrow> gep list" where
  "collectBlock [] WorkList = WorkList"
| "collectBlock (BI # FI) WorkList =
     collectBlock FI
       (case dyn_cast_GetElementPtrInst BI of
          Some GEP \<Rightarrow> WorkList @ [GEP]
        | None \<Rightarrow> WorkList)"

fun collectFunction :: "basic_block list \<Rightarrow> gep list \<Rightarrow> gep list" where
  "collectFunction [] WorkList = WorkList"
| "collectFunction (FI # F) WorkList = collectFunction F (collectBlock FI WorkList)"

section \<open>The pass\<close>

text \<open>The only field of the pass object: \<^verbatim>\<open>Function *Assert = nullptr;\<close>\<close>

record pass =
  Assert :: "function_ptr option"

definition BoundsCheck :: pass where
  "BoundsCheck = \<lparr> Assert = None \<rparr>"

text \<open>
  LLVM's \<^verbatim>\<open>ValueSymbolTable::makeUniqueName\<close>, for a global value: the loop
  \<^verbatim>\<open>while (true) { S << "." << ++LastUnique; if (vmap.insert(...)) return; }\<close>.
  It tries the name with the suffixes \<open>.k\<close> for \<open>k = LastUnique + 1, LastUnique + 2, ...\<close>
  and stops at the first one that is free.  (On an NVPTX target LLVM leaves the dot
  out; the model is of the other targets.)  The first argument bounds the number of
  turns; lemma \<open>makeUniqueName_fresh\<close> shows that the bound \<open>reinsertValue\<close> gives is
  never reached.
\<close>

fun makeUniqueName :: "nat \<Rightarrow> string \<Rightarrow> string list \<Rightarrow> nat \<Rightarrow> string \<times> nat" where
  "makeUniqueName 0 UniqueName vmap LastUnique' = (UniqueName, LastUnique')"
| "makeUniqueName (Suc turns) UniqueName vmap LastUnique' =
     (if UniqueName @ ''.'' @ decimal (Suc LastUnique') \<in> set vmap
      then makeUniqueName turns UniqueName vmap (Suc LastUnique')
      else (UniqueName @ ''.'' @ decimal (Suc LastUnique'), Suc LastUnique'))"

text \<open>
  LLVM's \<^verbatim>\<open>ValueSymbolTable::reinsertValue\<close>: a name that is free is entered as it is, a
  name that is taken is replaced by a unique one.  The result is the name the value has
  in the end, and the module with the name entered.
\<close>

definition reinsertValue :: "string \<Rightarrow> llvm_module \<Rightarrow> string \<times> llvm_module" where
  "reinsertValue n M =
     (if n \<in> set (ValSymTab M) then
        (case makeUniqueName (Suc (length (ValSymTab M))) n (ValSymTab M) (LastUnique M) of
           (n', k) \<Rightarrow> (n', M \<lparr> ValSymTab := ValSymTab M @ [n'], LastUnique := k \<rparr>))
      else (n, M \<lparr> ValSymTab := ValSymTab M @ [n] \<rparr>))"

text \<open>
  \<^verbatim>\<open>Function::Create(type, linkage, name, Mod)\<close> makes a function without a body, appends
  it to the function list of \<open>Mod\<close>, which enters its name in the symbol table of \<open>Mod\<close>,
  and returns a pointer to it.
\<close>

definition Function_Create :: "ty \<Rightarrow> linkage \<Rightarrow> string \<Rightarrow> module_ptr \<Rightarrow> store \<Rightarrow> function_ptr \<times> store" where
  "Function_Create t l n Mod s =
     (case reinsertValue n (s Mod) of
        (n', M) \<Rightarrow>
          ((Mod, length (FunctionList (s Mod))),
           s (Mod := M \<lparr> FunctionList := FunctionList (s Mod) @
                          [\<lparr> fname = n', ftype = t, flinkage = l, fnAttrs = [],
                             callingConv = C, blocks = [] \<rparr>] \<rparr>)))"

definition update_function :: "function_ptr \<Rightarrow> (func \<Rightarrow> func) \<Rightarrow> store \<Rightarrow> store" where
  "update_function F h s =
     s (fst F := (s (fst F))
          \<lparr> FunctionList := (FunctionList (s (fst F))) [snd F := h (FunctionList (s (fst F)) ! snd F)] \<rparr>)"

definition addFnAttr :: "function_ptr \<Rightarrow> attribute \<Rightarrow> store \<Rightarrow> store" where
  "addFnAttr F a s = update_function F (\<lambda>f. f \<lparr> fnAttrs := fnAttrs f @ [a] \<rparr>) s"

definition setCallingConv :: "function_ptr \<Rightarrow> calling_conv \<Rightarrow> store \<Rightarrow> store" where
  "setCallingConv F cc s = update_function F (\<lambda>f. f \<lparr> callingConv := cc \<rparr>) s"

text \<open>Lines 104 to 122.\<close>

definition getAssertFunction :: "module_ptr \<Rightarrow> store \<Rightarrow> function_ptr \<times> store" where
  "getAssertFunction Mod s =
     (let CharPtrTy = PointerTy (IntegerTy 8);
          IntTy = IntegerTy 32;
          assert_arg_types = [] @ [CharPtrTy] @ [CharPtrTy] @ [IntTy];
          assert_type = FunctionTy VoidTy assert_arg_types True
      in case Function_Create assert_type ExternalLinkage ''__assert'' Mod s of
           (F, s1) \<Rightarrow> (F, setCallingConv F C (addFnAttr F NoReturn s1)))"

text \<open>
  Lines 33 to 97.  The run gives back the pass object, the store, the debug output and
  either an error (the process ends with it) or the returned \<^verbatim>\<open>bool\<close>.
\<close>

record run =
  pass_of :: pass
  store_of :: store
  dbgs :: "dbg list"
  ret :: "error + bool"

definition runOnFunction :: "pass \<Rightarrow> store \<Rightarrow> function_ptr \<Rightarrow> run" where
  "runOnFunction this s F =
     (case (if Assert this = None \<or> getParent (the (Assert this)) \<noteq> getParent F
            then (case getAssertFunction (getParent F) s of
                    (A, s1) \<Rightarrow> (this \<lparr> Assert := Some A \<rparr>, s1))
            else (this, s)) of
        (this1, s1) \<Rightarrow>
          (let WorkList = collectFunction (blocks (deref s1 F)) [];
               changed = False
           in case processWorkList WorkList of
                (log, r) \<Rightarrow>
                  \<lparr> pass_of = this1, store_of = s1,
                    dbgs = Processing (fname (deref s F)) # log,
                    ret = (case r of Inl e \<Rightarrow> Inl e | Inr u \<Rightarrow> Inr changed) \<rparr>))"

text \<open>
  The host pipeline calls the pass once for each function, in order, and stops when a
  run ends the process.
\<close>

fun runOnFunctions :: "pass \<Rightarrow> store \<Rightarrow> function_ptr list \<Rightarrow> pass \<times> store \<times> error option" where
  "runOnFunctions this s [] = (this, s, None)"
| "runOnFunctions this s (F # Fs) =
     (let r = runOnFunction this s F
      in case ret r of
           Inl e \<Rightarrow> (pass_of r, store_of r, Some e)
         | Inr changed \<Rightarrow> runOnFunctions (pass_of r) (store_of r) Fs)"

section \<open>Reading a decimal numeral\<close>

text \<open>
  The number a string of decimal digits stands for; it is used to show that \<open>decimal\<close>
  prints different numbers differently.
\<close>

definition undecimal :: "string \<Rightarrow> nat" where
  "undecimal ds = foldl (\<lambda>a c. 10 * a + (of_char c - 48)) 0 ds"

section \<open>What the debug output tells\<close>

text \<open>
  Each turn of the loop over the work list first prints the instruction it analyses
  (line 61).  \<open>visited\<close> reads the instructions analysed off the debug output.
\<close>

fun visited :: "dbg list \<Rightarrow> gep list" where
  "visited [] = []"
| "visited (GEPInstruction g # log) = g # visited log"
| "visited (d # log) = visited log"

section \<open>Example inputs\<close>

text \<open>
  \<^verbatim>\<open>getelementptr [5 x i32], [5 x i32]* %0, i64 0, i64 3\<close>, and the same access with index 5,
  with the index in a register, through an \<^verbatim>\<open>i32*\<close>, into \<^verbatim>\<open>[0 x i32]\<close>; then
  \<^verbatim>\<open>getelementptr [4294967296 x i8], [4294967296 x i8]* %0, i64 0, i64 0\<close>,
  \<^verbatim>\<open>getelementptr [5 x i32], [5 x i32]* %0, i64 0, i64 4294967296\<close>, and
  \<^verbatim>\<open>getelementptr i32, i32* %0\<close>, which has no index.
\<close>

definition gep_in_bounds :: gep where
  "gep_in_bounds = \<lparr> pointerOperand = 0, pointerOperandType = PointerTy (ArrayTy 5 (IntegerTy 32)),
                      indices = [ConstantInt 0, ConstantInt 3] \<rparr>"

definition gep_out_of_bounds :: gep where
  "gep_out_of_bounds = \<lparr> pointerOperand = 0, pointerOperandType = PointerTy (ArrayTy 5 (IntegerTy 32)),
                          indices = [ConstantInt 0, ConstantInt 5] \<rparr>"

definition gep_variable_index :: gep where
  "gep_variable_index = \<lparr> pointerOperand = 0, pointerOperandType = PointerTy (ArrayTy 5 (IntegerTy 32)),
                           indices = [ConstantInt 0, NonConstantInt 1] \<rparr>"

definition gep_pointer :: gep where
  "gep_pointer = \<lparr> pointerOperand = 0, pointerOperandType = PointerTy (IntegerTy 32),
                    indices = [ConstantInt 0] \<rparr>"

definition gep_empty_array :: gep where
  "gep_empty_array = \<lparr> pointerOperand = 0, pointerOperandType = PointerTy (ArrayTy 0 (IntegerTy 32)),
                        indices = [ConstantInt 0, ConstantInt 0] \<rparr>"

definition gep_huge_array :: gep where
  "gep_huge_array = \<lparr> pointerOperand = 0, pointerOperandType = PointerTy (ArrayTy 4294967296 (IntegerTy 8)),
                       indices = [ConstantInt 0, ConstantInt 0] \<rparr>"

definition gep_huge_index :: gep where
  "gep_huge_index = \<lparr> pointerOperand = 0, pointerOperandType = PointerTy (ArrayTy 5 (IntegerTy 32)),
                       indices = [ConstantInt 0, ConstantInt 4294967296] \<rparr>"

definition gep_no_index :: gep where
  "gep_no_index = \<lparr> pointerOperand = 0, pointerOperandType = PointerTy (IntegerTy 32),
                     indices = [] \<rparr>"

definition example_function :: "string \<Rightarrow> instr list \<Rightarrow> func" where
  "example_function n body =
     \<lparr> fname = n, ftype = FunctionTy VoidTy [] False, flinkage = ExternalLinkage,
       fnAttrs = [], callingConv = C, blocks = [[OtherInst 0], body] \<rparr>"

definition empty_module :: llvm_module where
  "empty_module = \<lparr> FunctionList = [], ValSymTab = [], LastUnique = 0 \<rparr>"

text \<open>A store with one module, number 0, that defines \<^verbatim>\<open>f\<close> (with the given body) and \<^verbatim>\<open>g\<close>.\<close>

definition example_store :: "instr list \<Rightarrow> store" where
  "example_store body =
     (\<lambda>Mod. if Mod = 0
            then \<lparr> FunctionList = [example_function ''f'' body, example_function ''g'' []],
                   ValSymTab = [''f'', ''g''], LastUnique = 0 \<rparr>
            else empty_module)"

text \<open>
  A store with two modules: number 0 defines \<^verbatim>\<open>f\<close> and \<^verbatim>\<open>g\<close>, number 1 defines \<^verbatim>\<open>h\<close>;
  none of them has a pointer-indexing instruction.
\<close>

definition example_two_modules :: store where
  "example_two_modules =
     (\<lambda>Mod. if Mod = 0
            then \<lparr> FunctionList = [example_function ''f'' [], example_function ''g'' []],
                   ValSymTab = [''f'', ''g''], LastUnique = 0 \<rparr>
            else if Mod = 1
            then \<lparr> FunctionList = [example_function ''h'' []], ValSymTab = [''h''], LastUnique = 0 \<rparr>
            else empty_module)"

text \<open>\<^verbatim>\<open>getelementptr [12 x i32], [12 x i32]* %0, i64 0, i64 4294967313\<close>\<close>

definition gep_huge_violation :: gep where
  "gep_huge_violation = \<lparr> pointerOperand = 0, pointerOperandType = PointerTy (ArrayTy 12 (IntegerTy 32)),
                           indices = [ConstantInt 0, ConstantInt 4294967313] \<rparr>"

definition example_body :: "instr list" where
  "example_body = [GetElementPtrInst gep_in_bounds, OtherInst 1, GetElementPtrInst gep_out_of_bounds,
                   GetElementPtrInst gep_pointer]"

definition example_body_ok :: "instr list" where
  "example_body_ok = [GetElementPtrInst gep_in_bounds, OtherInst 1, GetElementPtrInst gep_pointer]"

section \<open>Auxiliary facts\<close>

subsection \<open>The message\<close>

lemma stringFormat_formatted: "stringFormat format args = formatted format args"
  by (simp add: stringFormat_def vsnprintf_def)

lemma message_text:
  "message desiredIndex arrayLength =
     ''Wrong assignment to index '' @ showInt (sint desiredIndex) @
     '' (zero-based) while array has length '' @ showInt (sint arrayLength) @ ''! Aborting...''"
  by (simp add: message_def stringFormat_formatted)

lemma collectBlock_eq:
  "collectBlock FI WorkList = WorkList @ List.map_filter dyn_cast_GetElementPtrInst FI"
  by (induction FI arbitrary: WorkList) (auto simp: List.map_filter_simps split: option.splits)

lemma map_filter_app:
  "List.map_filter h (xs @ ys) = List.map_filter h xs @ List.map_filter h ys"
  by (simp add: List.map_filter_def)

lemma collectFunction_eq:
  "collectFunction F WorkList =
     WorkList @ List.map_filter dyn_cast_GetElementPtrInst (concat F)"
  by (induction F arbitrary: WorkList) (auto simp: collectBlock_eq map_filter_app)

lemma sint_ucast_small:
  fixes n :: uint64
  assumes "uint n < 2 ^ 31"
  shows "sint (ucast n :: int32) = uint n"
proof -
  have "- (2 ^ 31) \<le> uint n"
    by (rule order_trans [of _ 0]) simp_all
  then have "signed_take_bit 31 (uint n) = uint n"
    using assms by (rule signed_take_bit_int_eq_self)
  then show ?thesis
    by (simp add: signed_ucast_eq)
qed

lemma recoverArrayLength_array:
  "pointerOperandType g = PointerTy (ArrayTy n t) \<Longrightarrow>
   recoverArrayLength g = ([ArrayHasLength (ucast n)], ucast n)"
  by (simp add: recoverArrayLength_def dyn_cast_PointerType_def dyn_cast_ArrayType_def Let_def)

lemma recoverArrayLength_other:
  "(\<forall>n t. pointerOperandType g \<noteq> PointerTy (ArrayTy n t)) \<Longrightarrow>
   recoverArrayLength g = ([], - 1)"
  by (auto simp add: recoverArrayLength_def dyn_cast_PointerType_def dyn_cast_ArrayType_def split: ty.splits)

lemma getOperand_last:
  "indices g \<noteq> [] \<Longrightarrow> getOperand g (getNumIndices g) = last (indices g)"
  by (cases "indices g" rule: rev_cases) (auto simp: getOperand_def getNumIndices_def nth_append)

lemma last_constant:
  "hasAllConstantIndices g \<Longrightarrow> indices g \<noteq> [] \<Longrightarrow> \<exists>c. last (indices g) = ConstantInt c"
  by (cases "last (indices g)")
     (auto simp: hasAllConstantIndices_def list_all_iff dyn_cast_ConstantInt_def
           dest!: last_in_set split: val.splits)

lemma recoverDesiredIndex_constant:
  "hasAllConstantIndices g \<Longrightarrow> last (indices g) = ConstantInt c \<Longrightarrow> indices g \<noteq> [] \<Longrightarrow>
     recoverDesiredIndex g = ([ConstantIndicesOnly, TriesToAssignToIndex (ucast c)], Inr (ucast c))"
  by (simp add: recoverDesiredIndex_def getOperand_last dyn_cast_ConstantInt_def Let_def)

lemma recoverDesiredIndex_nonconstant:
  "\<not> hasAllConstantIndices g \<Longrightarrow> recoverDesiredIndex g = ([], Inr (- 1))"
  by (simp add: recoverDesiredIndex_def)

lemma recoverDesiredIndex_no_index:
  "indices g = [] \<Longrightarrow> recoverDesiredIndex g = ([ConstantIndicesOnly], Inl NullDereference)"
  by (simp add: recoverDesiredIndex_def hasAllConstantIndices_def getOperand_def getNumIndices_def
        dyn_cast_ConstantInt_def)

lemma decide_sentinel_length: "decide (- 1) desiredIndex = ([NotAnalysed], Inr ())"
  by (simp add: decide_def word_sle_eq)

lemma decide_sentinel_index: "decide arrayLength (- 1) = ([NotAnalysed], Inr ())"
  by (simp add: decide_def word_sle_eq)


lemma decide_cases:
  "decide arrayLength desiredIndex =
     (if 0 \<le> sint arrayLength \<and> 0 \<le> sint desiredIndex then
        (if sint arrayLength \<le> sint desiredIndex
         then ([], Inl (FatalError (message desiredIndex arrayLength)))
         else ([CorrectBounds], Inr ()))
      else ([NotAnalysed], Inr ()))"
  by (simp add: decide_def word_sle_eq)

lemma analyseGEP_unfold:
  "analyseGEP g =
     (let arrayLength = snd (recoverArrayLength g); log1 = fst (recoverArrayLength g);
          log2 = fst (recoverDesiredIndex g)
      in case snd (recoverDesiredIndex g) of
           Inl e \<Rightarrow> (GEPInstruction g # log1 @ log2, Inl e)
         | Inr desiredIndex \<Rightarrow>
             (case snd (decide arrayLength desiredIndex) of
                Inl e \<Rightarrow> (GEPInstruction g # log1 @ log2 @ fst (decide arrayLength desiredIndex), Inl e)
              | Inr u \<Rightarrow> (GEPInstruction g # log1 @ log2 @ fst (decide arrayLength desiredIndex) @ [BlankLine], Inr ())))"
  by (simp add: analyseGEP_def Let_def split: prod.splits sum.splits)

lemma constant_access_in_int_range:
  assumes ty: "pointerOperandType g = PointerTy (ArrayTy L t)"
      and ix: "indices g = pre @ [ConstantInt i]" "hasAllConstantIndices g"
      and small: "uint L < 2 ^ 31" "uint i < 2 ^ 31"
  shows "snd (analyseGEP g) = (if L \<le> i then Inl (FatalError (message (ucast i) (ucast L))) else Inr ())"
proof -
  have l: "recoverArrayLength g = ([ArrayHasLength (ucast L)], ucast L)"
    using ty by (rule recoverArrayLength_array)
  have d: "recoverDesiredIndex g = ([ConstantIndicesOnly, TriesToAssignToIndex (ucast i)], Inr (ucast i))"
    using ix by (intro recoverDesiredIndex_constant) simp_all
  have sl: "sint (ucast L :: int32) = uint L" and si: "sint (ucast i :: int32) = uint i"
    using small by (simp_all add: sint_ucast_small)
  show ?thesis
    by (simp add: analyseGEP_unfold l d decide_cases sl si word_le_def Let_def)
qed

lemma visited_append: "visited (a @ b) = visited a @ visited b"
  by (induction a rule: visited.induct) simp_all

lemma visited_recoverArrayLength: "visited (fst (recoverArrayLength g)) = []"
  by (simp add: recoverArrayLength_def Let_def split: option.splits)

lemma visited_recoverDesiredIndex: "visited (fst (recoverDesiredIndex g)) = []"
  by (simp add: recoverDesiredIndex_def Let_def split: option.splits)

lemma visited_decide: "visited (fst (decide l i)) = []"
  by (simp add: decide_def)

lemma visited_analyseGEP: "visited (fst (analyseGEP g)) = [g]"
  by (simp add: analyseGEP_unfold Let_def visited_append visited_recoverArrayLength
        visited_recoverDesiredIndex visited_decide split: sum.splits)

lemma processWorkList_abort:
  "snd (analyseGEP g) = Inl e \<Longrightarrow> processWorkList (g # post) = analyseGEP g"
  by (cases "analyseGEP g") simp

lemma processWorkList_continue:
  "snd (analyseGEP g) = Inr u \<Longrightarrow>
   processWorkList (g # post) =
     (fst (analyseGEP g) @ fst (processWorkList post), snd (processWorkList post))"
  by (cases "analyseGEP g") (simp split: prod.splits)

lemma processWorkList_passed_prefix:
  "\<forall>p\<in>set pre. snd (analyseGEP p) = Inr () \<Longrightarrow>
   processWorkList (pre @ rest) =
     (fst (processWorkList pre) @ fst (processWorkList rest), snd (processWorkList rest))"
  by (induction pre) (simp_all add: processWorkList_continue del: processWorkList.simps(2))

lemma visited_passed_prefix:
  "\<forall>p\<in>set pre. snd (analyseGEP p) = Inr () \<Longrightarrow>
   visited (fst (processWorkList pre)) = pre \<and> snd (processWorkList pre) = Inr ()"
  by (induction pre)
     (simp_all add: processWorkList_continue visited_append visited_analyseGEP
        del: processWorkList.simps(2))

lemma visited_processWorkList:
  "prefix (visited (fst (processWorkList WorkList))) WorkList \<and>
   (snd (processWorkList WorkList) = Inr () \<longrightarrow> visited (fst (processWorkList WorkList)) = WorkList)"
proof (induction WorkList)
  case Nil
  show ?case by simp
next
  case (Cons g WorkList)
  show ?case
  proof (cases "snd (analyseGEP g)")
    case (Inl e)
    then show ?thesis
      using visited_analyseGEP [of g]
      by (simp add: processWorkList_abort del: processWorkList.simps(2))
  next
    case (Inr u)
    then show ?thesis
      using Cons visited_analyseGEP [of g]
      by (simp add: processWorkList_continue visited_append del: processWorkList.simps(2))
  qed
qed

subsection \<open>Decimal numerals and unique names\<close>

lemma digit_value: "d < 10 \<Longrightarrow> of_char (''0123456789'' ! d) - 48 = (d :: nat)"
proof -
  assume "d < 10"
  then have "d \<in> {0, 1, 2, 3, 4, 5, 6, 7, 8, 9}"
    by auto
  then show ?thesis
    by auto
qed

lemma undecimal_decimal: "undecimal (decimal n) = n"
proof (induction n rule: decimal.induct)
  case (1 n)
  show ?case
  proof (cases "n < 10")
    case True
    then show ?thesis
      by (subst decimal.simps) (simp add: undecimal_def digit_value)
  next
    case False
    have "undecimal (decimal (n div 10)) = n div 10"
      using False by (rule "1.IH")
    then show ?thesis
      using False by (subst decimal.simps) (simp add: undecimal_def digit_value)
  qed
qed

lemma decimal_inj: "decimal m = decimal n \<Longrightarrow> m = n"
  by (metis undecimal_decimal)

lemma showInt_examples:
  "showInt 0 = ''0'' \<and> showInt 1234 = ''1234'' \<and> showInt 4294967295 = ''4294967295'' \<and>
   showInt (- 120) = ''-120''"
  by (simp add: showInt_def decimal.simps)

lemma taken_suffixes:
  "finite {k. l < k \<and> base @ ''.'' @ decimal k \<in> set vmap} \<and>
   card {k. l < k \<and> base @ ''.'' @ decimal k \<in> set vmap} \<le> length vmap"
proof -
  let ?T = "{k. l < k \<and> base @ ''.'' @ decimal k \<in> set vmap}"
  let ?h = "\<lambda>k. base @ ''.'' @ decimal k"
  have inj: "inj_on ?h ?T"
    by (rule inj_onI) (simp add: decimal_inj)
  have sub: "?h ` ?T \<subseteq> set vmap"
    by auto
  then have fin: "finite (?h ` ?T)"
    by (rule finite_subset) simp
  then have "finite ?T"
    using inj by (rule finite_imageD)
  moreover have "card ?T = card (?h ` ?T)"
    using inj by (simp add: card_image)
  moreover have "card (?h ` ?T) \<le> card (set vmap)"
    using sub by (simp add: card_mono)
  moreover have "card (set vmap) \<le> length vmap"
    by (rule card_length)
  ultimately show ?thesis
    by simp
qed

lemma makeUniqueName_turns:
  "card {k. l < k \<and> base @ ''.'' @ decimal k \<in> set vmap} < turns \<Longrightarrow>
   fst (makeUniqueName turns base vmap l) \<notin> set vmap \<and>
   fst (makeUniqueName turns base vmap l) = base @ ''.'' @ decimal (snd (makeUniqueName turns base vmap l)) \<and>
   l < snd (makeUniqueName turns base vmap l)"
proof (induction turns arbitrary: l)
  case 0
  then show ?case by simp
next
  case (Suc turns)
  show ?case
  proof (cases "base @ ''.'' @ decimal (Suc l) \<in> set vmap")
    case False
    then show ?thesis by simp
  next
    case True
    let ?T = "\<lambda>l. {k. l < k \<and> base @ ''.'' @ decimal k \<in> set vmap}"
    have "?T (Suc l) \<subset> ?T l"
      using True by auto
    then have "card (?T (Suc l)) < card (?T l)"
      using taken_suffixes [of l base vmap] by (simp add: psubset_card_mono)
    then have "card (?T (Suc l)) < turns"
      using Suc.prems by simp
    then show ?thesis
      using Suc.IH [of "Suc l"] True by auto
  qed
qed

lemma makeUniqueName_fresh:
  "fst (makeUniqueName (Suc (length vmap)) base vmap l) \<notin> set vmap"
proof -
  have "card {k. l < k \<and> base @ ''.'' @ decimal k \<in> set vmap} < Suc (length vmap)"
    using taken_suffixes [of l base vmap] by (simp only: less_Suc_eq_le)
  then show ?thesis
    by (rule makeUniqueName_turns [THEN conjunct1])
qed

lemma reinsertValue_fresh: "fst (reinsertValue n M) \<notin> set (ValSymTab M)"
  using makeUniqueName_fresh [of "ValSymTab M" n "LastUnique M"]
  by (cases "makeUniqueName (Suc (length (ValSymTab M))) n (ValSymTab M) (LastUnique M)")
     (simp add: reinsertValue_def del: makeUniqueName.simps)

lemma reinsertValue_FunctionList: "FunctionList (snd (reinsertValue n M)) = FunctionList M"
  by (cases "makeUniqueName (Suc (length (ValSymTab M))) n (ValSymTab M) (LastUnique M)")
     (simp add: reinsertValue_def del: makeUniqueName.simps)

lemma reinsertValue_examples:
  "fst (reinsertValue ''__assert'' \<lparr> FunctionList = [], ValSymTab = [''main''], LastUnique = 0 \<rparr>) =
     ''__assert'' \<and>
   fst (reinsertValue ''__assert''
          \<lparr> FunctionList = [], ValSymTab = [''main'', ''__assert''], LastUnique = 0 \<rparr>) =
     ''__assert.1'' \<and>
   fst (reinsertValue ''__assert''
          \<lparr> FunctionList = [], ValSymTab = [''__assert'', ''__assert.10''], LastUnique = 9 \<rparr>) =
     ''__assert.11''"
  by (simp add: reinsertValue_def decimal.simps)

subsection \<open>The declaration and the store\<close>

lemma getAssertFunction_eq:
  "getAssertFunction Mod s =
     ((Mod, length (FunctionList (s Mod))),
      s (Mod := (snd (reinsertValue ''__assert'' (s Mod)))
           \<lparr> FunctionList := FunctionList (s Mod) @
               [\<lparr> fname = fst (reinsertValue ''__assert'' (s Mod)),
                   ftype = FunctionTy VoidTy [PointerTy (IntegerTy 8), PointerTy (IntegerTy 8), IntegerTy 32] True,
                   flinkage = ExternalLinkage, fnAttrs = [NoReturn], callingConv = C, blocks = [] \<rparr>] \<rparr>))"
  by (cases "reinsertValue ''__assert'' (s Mod)")
     (simp add: getAssertFunction_def Function_Create_def setCallingConv_def addFnAttr_def
        update_function_def Let_def)

lemma store_of_runOnFunction:
  "store_of (runOnFunction this s F) =
     (if Assert this = None \<or> getParent (the (Assert this)) \<noteq> getParent F
      then snd (getAssertFunction (getParent F) s) else s)"
  by (simp add: runOnFunction_def Let_def split: prod.splits)

lemma pass_of_runOnFunction:
  "pass_of (runOnFunction this s F) =
     (if Assert this = None \<or> getParent (the (Assert this)) \<noteq> getParent F
      then this \<lparr> Assert := Some (fst (getAssertFunction (getParent F) s)) \<rparr> else this)"
  by (simp add: runOnFunction_def Let_def split: prod.splits)

lemma old_functions_kept:
  "k < length (FunctionList (s M)) \<Longrightarrow>
   FunctionList (store_of (runOnFunction this s F) M) ! k = FunctionList (s M) ! k"
  by (auto simp add: store_of_runOnFunction getAssertFunction_eq nth_append)

lemma deref_runOnFunction:
  "snd F < length (FunctionList (s (getParent F))) \<Longrightarrow>
   deref (store_of (runOnFunction this s F)) F = deref s F"
  by (simp add: deref_def getParent_def old_functions_kept)

lemma dbgs_ret_runOnFunction:
  "dbgs (runOnFunction this s F) =
     Processing (fname (deref s F)) #
     fst (processWorkList (collectFunction (blocks (deref (store_of (runOnFunction this s F)) F)) []))
   \<and> ret (runOnFunction this s F) =
     (case snd (processWorkList (collectFunction (blocks (deref (store_of (runOnFunction this s F)) F)) [])) of
        Inl e \<Rightarrow> Inl e | Inr u \<Rightarrow> Inr False)"
  by (simp add: runOnFunction_def Let_def split: prod.splits)

lemma ret_never_True: "ret (runOnFunction this s F) \<noteq> Inr True"
  by (simp add: dbgs_ret_runOnFunction split: sum.splits)

lemma reuse_step:
  "Assert this = Some (M, k) \<Longrightarrow> getParent F = M \<Longrightarrow>
   pass_of (runOnFunction this s F) = this \<and> store_of (runOnFunction this s F) = s"
  by (simp add: store_of_runOnFunction pass_of_runOnFunction getParent_def)

lemma reuse_run:
  "Assert this = Some (M, k) \<Longrightarrow> \<forall>F\<in>set Fs. getParent F = M \<Longrightarrow>
   fst (runOnFunctions this s Fs) = this \<and> fst (snd (runOnFunctions this s Fs)) = s"
  by (induction Fs) (simp_all add: Let_def reuse_step split: sum.splits)

lemma create_step:
  "Assert this = None \<or> getParent (the (Assert this)) \<noteq> getParent F \<Longrightarrow>
   Assert (pass_of (runOnFunction this s F)) =
     Some (getParent F, length (FunctionList (s (getParent F)))) \<and>
   store_of (runOnFunction this s F) = snd (getAssertFunction (getParent F) s)"
  by (simp add: store_of_runOnFunction pass_of_runOnFunction getAssertFunction_eq)

subsection \<open>Evaluating the examples\<close>

lemmas eval_defs = analyseGEP_unfold recoverArrayLength_def recoverDesiredIndex_def decide_cases
  dyn_cast_PointerType_def dyn_cast_ArrayType_def dyn_cast_ConstantInt_def hasAllConstantIndices_def
  getOperand_def getNumIndices_def Let_def message_text showInt_def decimal.simps

lemmas store_examples = example_store_def example_function_def example_body_def deref_def getParent_def
  dyn_cast_GetElementPtrInst_def

lemmas run_examples = dbgs_ret_runOnFunction store_of_runOnFunction pass_of_runOnFunction
  getAssertFunction_eq reinsertValue_def BoundsCheck_def example_store_def example_two_modules_def
  empty_module_def example_function_def example_body_def example_body_ok_def deref_def getParent_def
  dyn_cast_GetElementPtrInst_def gep_in_bounds_def gep_pointer_def eval_defs

lemma empty_array_is_flagged:
  "snd (analyseGEP gep_empty_array) =
     Inl (FatalError ''Wrong assignment to index 0 (zero-based) while array has length 0! Aborting...'')"
  by (simp add: gep_empty_array_def eval_defs)

lemma variable_index_passes:
  "analyseGEP gep_variable_index =
     ([GEPInstruction gep_variable_index, ArrayHasLength 5, NotAnalysed, BlankLine], Inr ())"
  by (simp add: gep_variable_index_def eval_defs)

subsection \<open>The two recoveries and the decision, inside the range of \<^verbatim>\<open>int\<close>\<close>

lemma arrayLength_in_int_range:
  "pointerOperandType g = PointerTy (ArrayTy L t) \<Longrightarrow> uint L < 2 ^ 31 \<Longrightarrow>
   sint (snd (recoverArrayLength g)) = uint L"
  by (simp add: recoverArrayLength_array sint_ucast_small)

lemma arrayLength_unknown:
  "(\<forall>n t. pointerOperandType g \<noteq> PointerTy (ArrayTy n t)) \<Longrightarrow> snd (recoverArrayLength g) = - 1"
  by (simp add: recoverArrayLength_other)

lemma desiredIndex_in_int_range:
  "hasAllConstantIndices g \<Longrightarrow> indices g \<noteq> [] \<Longrightarrow> last (indices g) = ConstantInt c \<Longrightarrow>
   uint c < 2 ^ 31 \<Longrightarrow>
   \<exists>i. snd (recoverDesiredIndex g) = Inr i \<and> sint i = uint c"
  by (simp add: recoverDesiredIndex_constant sint_ucast_small)

lemma constant_indices_downcast:
  "hasAllConstantIndices g \<Longrightarrow> indices g \<noteq> [] \<Longrightarrow>
   dyn_cast_ConstantInt (getOperand g (getNumIndices g)) \<noteq> None \<and>
   (\<exists>i. snd (recoverDesiredIndex g) = Inr i)"
  using last_constant [of g]
  by (auto simp: getOperand_last dyn_cast_ConstantInt_def recoverDesiredIndex_constant)

lemma unanalysable_passes:
  assumes "indices g \<noteq> []"
      and "(\<forall>n t. pointerOperandType g \<noteq> PointerTy (ArrayTy n t)) \<or> \<not> hasAllConstantIndices g"
  shows "snd (analyseGEP g) = Inr () \<and> NotAnalysed \<in> set (fst (analyseGEP g))"
proof (cases "hasAllConstantIndices g")
  case False
  then show ?thesis
    by (simp add: analyseGEP_unfold recoverDesiredIndex_nonconstant decide_sentinel_index Let_def)
next
  case True
  with assms have l: "recoverArrayLength g = ([], - 1)"
    by (simp add: recoverArrayLength_other)
  from True assms(1) obtain c where "last (indices g) = ConstantInt c"
    using last_constant by blast
  with True assms(1) show ?thesis
    by (simp add: analyseGEP_unfold l recoverDesiredIndex_constant decide_sentinel_length Let_def)
qed

lemma unanalysable_is_passed_over:
  assumes "indices g \<noteq> []"
      and "(\<forall>n t. pointerOperandType g \<noteq> PointerTy (ArrayTy n t)) \<or> \<not> hasAllConstantIndices g"
  shows "processWorkList (g # rest) =
           (fst (analyseGEP g) @ fst (processWorkList rest), snd (processWorkList rest))"
proof -
  have "snd (analyseGEP g) = Inr ()"
    using unanalysable_passes [OF assms] by simp
  then show ?thesis
    by (rule processWorkList_continue)
qed

lemma violation_step:
  assumes "snd (recoverArrayLength g) = arrayLength" "snd (recoverDesiredIndex g) = Inr desiredIndex"
      and "0 \<le>s arrayLength" "0 \<le>s desiredIndex" "arrayLength \<le>s desiredIndex"
  shows "snd (analyseGEP g) = Inl (FatalError (message desiredIndex arrayLength))"
  using assms by (simp add: analyseGEP_unfold decide_def Let_def)

lemma violation_ends_the_run:
  assumes "snd F < length (FunctionList (s (getParent F)))"
      and "collectFunction (blocks (deref s F)) [] = pre @ g # post"
      and "\<forall>p\<in>set pre. snd (analyseGEP p) = Inr ()"
      and "snd (recoverArrayLength g) = arrayLength" "snd (recoverDesiredIndex g) = Inr desiredIndex"
      and "0 \<le>s arrayLength" "0 \<le>s desiredIndex" "arrayLength \<le>s desiredIndex"
  shows "ret (runOnFunction this s F) =
           Inl (FatalError (''Wrong assignment to index '' @ showInt (sint desiredIndex) @
                  '' (zero-based) while array has length '' @ showInt (sint arrayLength) @
                  ''! Aborting...'')) \<and>
         sublist (showInt (sint desiredIndex)) (message desiredIndex arrayLength) \<and>
         sublist (showInt (sint arrayLength)) (message desiredIndex arrayLength) \<and>
         visited (dbgs (runOnFunction this s F)) = pre @ [g] \<and>
         processWorkList (pre @ g # post) = processWorkList (pre @ [g])"
proof -
  have v: "snd (analyseGEP g) = Inl (FatalError (message desiredIndex arrayLength))"
    using assms(4-8) by (rule violation_step)
  have stop: "processWorkList (g # rest) = analyseGEP g" for rest
    using v by (rule processWorkList_abort)
  have split: "processWorkList (pre @ g # rest) =
      (fst (processWorkList pre) @ fst (analyseGEP g), snd (analyseGEP g))" for rest
    using processWorkList_passed_prefix [OF assms(3), of "g # rest"] by (simp only: stop)
  have same: "processWorkList (pre @ g # post) = processWorkList (pre @ [g])"
    by (simp only: split)
  have wl: "collectFunction (blocks (deref (store_of (runOnFunction this s F)) F)) [] = pre @ g # post"
    using assms(1,2) by (simp add: deref_runOnFunction)
  have r: "ret (runOnFunction this s F) = Inl (FatalError (message desiredIndex arrayLength))"
    by (simp add: dbgs_ret_runOnFunction wl split v)
  have vis: "visited (dbgs (runOnFunction this s F)) = pre @ [g]"
    using visited_passed_prefix [OF assms(3)]
    by (simp add: dbgs_ret_runOnFunction wl split visited_append visited_analyseGEP)
  have s1: "sublist (showInt (sint desiredIndex)) (message desiredIndex arrayLength)"
    unfolding message_text by (rule sublist_appendI)
  have "message desiredIndex arrayLength =
      (''Wrong assignment to index '' @ showInt (sint desiredIndex) @
       '' (zero-based) while array has length '') @ showInt (sint arrayLength) @ ''! Aborting...''"
    unfolding message_text by (simp only: append_assoc)
  then have s2: "sublist (showInt (sint arrayLength)) (message desiredIndex arrayLength)"
    by (simp only: sublist_appendI)
  from r s1 s2 vis same show ?thesis
    by (simp only: message_text simp_thms)
qed

lemma violation_message_in_int_range:
  assumes "pointerOperandType g = PointerTy (ArrayTy L t)"
      and "indices g = pre @ [ConstantInt i]" "hasAllConstantIndices g"
      and "uint L < 2 ^ 31" "uint i < 2 ^ 31" "L \<le> i"
  shows "snd (analyseGEP g) =
           Inl (FatalError (''Wrong assignment to index '' @ showInt (uint i) @
                  '' (zero-based) while array has length '' @ showInt (uint L) @ ''! Aborting...''))"
  using constant_access_in_int_range [OF assms(1-5)] assms(4-6)
  by (simp only: message_text sint_ucast_small if_True)

lemma one_module_batch:
  assumes same: "\<forall>F\<in>set Fs. getParent F = Mod"
      and run: "runOnFunctions this s Fs = (this', s', e)"
  shows "(s' = s \<or> s' = snd (getAssertFunction Mod s)) \<and>
         length (FunctionList (s' Mod)) \<le> length (FunctionList (s Mod)) + 1 \<and>
         (\<forall>k. Assert this = Some (Mod, k) \<longrightarrow> s' = s \<and> this' = this) \<and>
         (Fs \<noteq> [] \<longrightarrow> (\<exists>k. Assert this' = Some (Mod, k))) \<and>
         concat (map blocks (FunctionList (s' Mod))) = concat (map blocks (FunctionList (s Mod)))"
proof (cases Fs)
  case Nil
  with run show ?thesis by simp
next
  case (Cons F Fs')
  have F: "getParent F = Mod" and Fs': "\<forall>F\<in>set Fs'. getParent F = Mod"
    using same Cons by simp_all
  show ?thesis
  proof (cases "Assert this = None \<or> getParent (the (Assert this)) \<noteq> getParent F")
    case False
    then obtain k where k: "Assert this = Some (Mod, k)"
      using F by (cases "Assert this") (auto simp: getParent_def)
    have "fst (runOnFunctions this s Fs) = this \<and> fst (snd (runOnFunctions this s Fs)) = s"
      using k same by (rule reuse_run)
    with run k Cons show ?thesis by simp
  next
    case True
    let ?r = "runOnFunction this s F"
    have created: "Assert (pass_of ?r) = Some (Mod, length (FunctionList (s Mod)))"
      and store: "store_of ?r = snd (getAssertFunction Mod s)"
      using create_step [OF True, of s] F by simp_all
    have rest: "fst (runOnFunctions (pass_of ?r) (store_of ?r) Fs') = pass_of ?r \<and>
                fst (snd (runOnFunctions (pass_of ?r) (store_of ?r) Fs')) = store_of ?r"
      using created Fs' by (rule reuse_run)
    have "this' = pass_of ?r \<and> s' = store_of ?r"
      using run rest unfolding Cons by (auto simp: Let_def split: sum.splits)
    moreover have "\<forall>k. Assert this \<noteq> Some (Mod, k)"
      using True F by (auto simp: getParent_def)
    ultimately show ?thesis
      using created Cons by (simp add: store getAssertFunction_eq)
  qed
qed

section \<open>The claims\<close>

text \<open>
  C1.  The claim: for a base that points to an array of length \<open>L\<close> and constant indices
  whose last one is \<open>i\<close>, the fatal diagnostic is raised if and only if \<open>i \<ge> L\<close>.
  The code keeps both numbers in an \<^verbatim>\<open>int\<close>, so the claim holds when both are below
  \<open>2^31\<close> (lemma \<open>constant_access_in_int_range\<close>) and fails beyond: index 0 of an array
  of 4294967296 elements raises the diagnostic (the length is read as 0), and index
  4294967296 of an array of 5 elements raises none (the index is read as 0).
\<close>

theorem constant_access_outside_int_range:
  "pointerOperandType gep_huge_array = PointerTy (ArrayTy 4294967296 (IntegerTy 8)) \<and>
   indices gep_huge_array = [ConstantInt 0, ConstantInt 0] \<and>
   snd (analyseGEP gep_huge_array) =
     Inl (FatalError ''Wrong assignment to index 0 (zero-based) while array has length 0! Aborting...'') \<and>
   pointerOperandType gep_huge_index = PointerTy (ArrayTy 5 (IntegerTy 32)) \<and>
   indices gep_huge_index = [ConstantInt 0, ConstantInt 4294967296] \<and>
   analyseGEP gep_huge_index =
     ([GEPInstruction gep_huge_index, ArrayHasLength 5, ConstantIndicesOnly, TriesToAssignToIndex 0,
       CorrectBounds, BlankLine], Inr ())"
  by (simp add: gep_huge_array_def gep_huge_index_def eval_defs)

text \<open>
  C2.  The numeric relation \<open>desiredIndex \<ge> arrayLength\<close> is evaluated only when both
  quantities are known: when the analysis of an instruction ends neither in the
  ``not analysed'' branch nor in a fault, the base pointer's type is a pointer to an
  array, all indices are constant, and neither variable holds the value \<open>-1\<close> that
  stands for unknown (both passed the test \<open>\<ge> 0\<close>).  A variable that holds \<open>-1\<close>
  sends the decision to the ``not analysed'' branch whatever the other variable holds.
\<close>

theorem comparison_only_when_both_known:
  assumes "analyseGEP g = (log, r)" and "NotAnalysed \<notin> set log" and "r \<noteq> Inl NullDereference"
  shows "(\<exists>n t. pointerOperandType g = PointerTy (ArrayTy n t)) \<and> hasAllConstantIndices g \<and>
         (\<exists>desiredIndex. snd (recoverDesiredIndex g) = Inr desiredIndex \<and> desiredIndex \<noteq> - 1 \<and>
            0 \<le>s desiredIndex) \<and>
         snd (recoverArrayLength g) \<noteq> - 1 \<and> 0 \<le>s snd (recoverArrayLength g) \<and>
         decide (- 1) i = ([NotAnalysed], Inr ()) \<and> decide l (- 1) = ([NotAnalysed], Inr ())"
proof -
  have ix: "indices g \<noteq> []"
    using assms by (auto simp: analyseGEP_unfold recoverDesiredIndex_no_index Let_def)
  have known: "\<not> ((\<forall>n t. pointerOperandType g \<noteq> PointerTy (ArrayTy n t)) \<or> \<not> hasAllConstantIndices g)"
    using unanalysable_passes [OF ix] assms by auto
  then obtain n t where ty: "pointerOperandType g = PointerTy (ArrayTy n t)" and c: "hasAllConstantIndices g"
    by blast
  obtain k where k: "last (indices g) = ConstantInt k"
    using last_constant [OF c ix] by blast
  have d: "recoverDesiredIndex g = ([ConstantIndicesOnly, TriesToAssignToIndex (ucast k)], Inr (ucast k))"
    using c k ix by (rule recoverDesiredIndex_constant)
  have a: "recoverArrayLength g = ([ArrayHasLength (ucast n)], ucast n)"
    using ty by (rule recoverArrayLength_array)
  have pos: "0 \<le> sint (ucast n :: int32) \<and> 0 \<le> sint (ucast k :: int32)"
    using assms by (auto simp: analyseGEP_unfold a d decide_cases Let_def split: if_splits)
  then have "(ucast n :: int32) \<noteq> - 1 \<and> (ucast k :: int32) \<noteq> - 1"
    by auto
  with pos ty c show ?thesis
    by (simp add: a d word_sle_eq decide_sentinel_length decide_sentinel_index)
qed

theorem comparison_only_when_both_known_witness:
  "analyseGEP gep_in_bounds =
     ([GEPInstruction gep_in_bounds, ArrayHasLength 5, ConstantIndicesOnly, TriesToAssignToIndex 3,
       CorrectBounds, BlankLine], Inr ()) \<and>
   (\<exists>n t. pointerOperandType gep_in_bounds = PointerTy (ArrayTy n t)) \<and>
   hasAllConstantIndices gep_in_bounds \<and>
   snd (recoverArrayLength gep_in_bounds) \<noteq> - 1"
proof -
  have run: "analyseGEP gep_in_bounds =
     ([GEPInstruction gep_in_bounds, ArrayHasLength 5, ConstantIndicesOnly, TriesToAssignToIndex 3,
       CorrectBounds, BlankLine], Inr ())"
    by (simp add: gep_in_bounds_def eval_defs)
  show ?thesis
    using comparison_only_when_both_known [OF run] run by simp
qed

text \<open>
  C3.  The claim: an instruction whose base does not point to an array, or with a
  non-constant index, raises no diagnostic and is passed over, the analysis going on with
  the next instruction.  This holds for every instruction with at least one index (lemma
  \<open>unanalysable_passes\<close>).  An instruction with no index, whose base does not point to an
  array, is not passed over: the run ends in the null dereference of line 78 and the
  next instruction of the work list is never analysed.
\<close>

theorem no_index_stops_the_analysis:
  "pointerOperandType gep_no_index = PointerTy (IntegerTy 32) \<and>
   indices gep_no_index = [] \<and>
   processWorkList [gep_no_index, gep_in_bounds] =
     ([GEPInstruction gep_no_index, ConstantIndicesOnly], Inl NullDereference)"
  by (simp add: gep_no_index_def gep_in_bounds_def eval_defs)

text \<open>
  C4.  The claim: when every index is constant, \<open>desiredIndex\<close> is the value of the last
  index.  This holds for values below \<open>2^31\<close> (lemma \<open>desiredIndex_in_int_range\<close>), and a
  non-constant index leaves \<open>desiredIndex\<close> at \<open>-1\<close> (lemma
  \<open>recoverDesiredIndex_nonconstant\<close>).  For the constant 4294967296 the variable holds 0.
\<close>

theorem index_above_int_range:
  "hasAllConstantIndices gep_huge_index \<and>
   getOperand gep_huge_index (getNumIndices gep_huge_index) = ConstantInt 4294967296 \<and>
   snd (recoverDesiredIndex gep_huge_index) = Inr 0"
  by (simp add: gep_huge_index_def eval_defs)

text \<open>
  C5.  The claim: when the base points to an array, \<open>arrayLength\<close> is the array's number
  of elements, and \<open>-1\<close> (unknown) otherwise.  This holds for lengths below \<open>2^31\<close>
  (lemmas \<open>arrayLength_in_int_range\<close> and \<open>arrayLength_unknown\<close>).  For an array of
  4294967296 elements the variable holds 0, and for an array of 4294967295 elements it
  holds \<open>-1\<close>, the value that stands for unknown.
\<close>

theorem length_above_int_range:
  "pointerOperandType gep_huge_array = PointerTy (ArrayTy 4294967296 (IntegerTy 8)) \<and>
   snd (recoverArrayLength gep_huge_array) = 0 \<and>
   snd (recoverArrayLength
          (gep_huge_array \<lparr> pointerOperandType := PointerTy (ArrayTy 4294967295 (IntegerTy 8)) \<rparr>)) = - 1"
  by (simp add: gep_huge_array_def eval_defs)

text \<open>
  C6.  The claim: the message of the fatal diagnostic holds the offending index and the
  length of the array, and the run ends at the first violation.  The run does end there
  and the later instructions are not analysed (lemma \<open>violation_ends_the_run\<close>), and
  for an index and a length below \<open>2^31\<close> the message holds both (lemma
  \<open>violation_message_in_int_range\<close>).  But the message prints the two \<^verbatim>\<open>int\<close> variables:
  for index 4294967313 of an array of 12 elements it names index 17.
\<close>

theorem message_names_the_truncated_index:
  "pointerOperandType gep_huge_violation = PointerTy (ArrayTy 12 (IntegerTy 32)) \<and>
   indices gep_huge_violation = [ConstantInt 0, ConstantInt 4294967313] \<and>
   analyseGEP gep_huge_violation =
     ([GEPInstruction gep_huge_violation, ArrayHasLength 12, ConstantIndicesOnly,
       TriesToAssignToIndex 17],
      Inl (FatalError ''Wrong assignment to index 17 (zero-based) while array has length 12! Aborting...''))"
  by (simp add: gep_huge_violation_def eval_defs)

text \<open>
  C7.  A run on a function \<open>F\<close> of the store leaves \<open>F\<close> as it was (and every other
  function that was in the store), and the returned \<^verbatim>\<open>bool\<close> is never \<open>True\<close>.
\<close>

theorem function_left_unmodified:
  assumes "snd F < length (FunctionList (s (getParent F)))"
  shows "deref (store_of (runOnFunction this s F)) F = deref s F \<and>
         ret (runOnFunction this s F) \<noteq> Inr True \<and>
         (\<forall>Mod k. k < length (FunctionList (s Mod)) \<longrightarrow>
            FunctionList (store_of (runOnFunction this s F) Mod) ! k = FunctionList (s Mod) ! k)"
  using assms by (simp add: deref_runOnFunction ret_never_True old_functions_kept)

theorem function_left_unmodified_witness:
  "snd (0 :: nat, 0 :: nat) < length (FunctionList (example_store example_body_ok (getParent (0, 0)))) \<and>
   deref (store_of (runOnFunction BoundsCheck (example_store example_body_ok) (0, 0))) (0, 0) =
     example_function ''f'' example_body_ok \<and>
   ret (runOnFunction BoundsCheck (example_store example_body_ok) (0, 0)) = Inr False"
proof -
  have h: "snd (0 :: nat, 0 :: nat) < length (FunctionList (example_store example_body_ok (getParent (0, 0))))"
    by (simp add: example_store_def getParent_def)
  have r: "ret (runOnFunction BoundsCheck (example_store example_body_ok) (0, 0)) = Inr False"
    by (simp add: run_examples)
  show ?thesis
    using function_left_unmodified
        [where F = "(0, 0)" and s = "example_store example_body_ok" and this = BoundsCheck, OF h] h r
    by (simp add: example_store_def deref_def)
qed

text \<open>
  C8.  The claim: the declaration of the assertion function is created at most once in a
  module and reused afterwards (line 43 says ``once per module'').  This holds for runs
  that stay in one module (lemma \<open>one_module_batch\<close>).  But the pass object remembers one
  declaration only: after a run on a function of another module, a run on the first
  module creates a second declaration there, which LLVM names \<^verbatim>\<open>__assert.1\<close>.
\<close>

theorem second_declaration_after_other_module:
  "map fname (FunctionList (fst (snd (runOnFunctions BoundsCheck example_two_modules
                                        [(0, 0), (1, 0), (0, 1)])) 0)) =
     [''f'', ''g'', ''__assert'', ''__assert.1''] \<and>
   map fname (FunctionList (fst (snd (runOnFunctions BoundsCheck example_two_modules
                                        [(0, 0), (1, 0), (0, 1)])) 1)) =
     [''h'', ''__assert''] \<and>
   snd (snd (runOnFunctions BoundsCheck example_two_modules [(0, 0), (1, 0), (0, 1)])) = None"
  by (simp add: run_examples)

text \<open>
  C9.  The work list holds exactly the pointer-indexing instructions of the function, in
  the order of the blocks and, inside a block, of the instructions (it is empty when
  there is none).  The analysis reads it as it was built: the instructions analysed are
  a prefix of the work list, and the whole work list when the run returns.
\<close>

theorem work_list_is_the_GEPs_in_order:
  assumes "snd F < length (FunctionList (s (getParent F)))"
  shows "map GetElementPtrInst (collectFunction (blocks (deref s F)) []) =
           filter (\<lambda>BI. dyn_cast_GetElementPtrInst BI \<noteq> None) (concat (blocks (deref s F))) \<and>
         prefix (visited (dbgs (runOnFunction this s F))) (collectFunction (blocks (deref s F)) []) \<and>
         (ret (runOnFunction this s F) = Inr False \<longrightarrow>
            visited (dbgs (runOnFunction this s F)) = collectFunction (blocks (deref s F)) [])"
proof -
  have "map GetElementPtrInst (List.map_filter dyn_cast_GetElementPtrInst xs) =
        filter (\<lambda>BI. dyn_cast_GetElementPtrInst BI \<noteq> None) xs" for xs
    by (induction xs)
       (auto simp: List.map_filter_simps dyn_cast_GetElementPtrInst_def split: instr.splits)
  then have c: "map GetElementPtrInst (collectFunction (blocks (deref s F)) []) =
           filter (\<lambda>BI. dyn_cast_GetElementPtrInst BI \<noteq> None) (concat (blocks (deref s F)))"
    by (simp add: collectFunction_eq)
  have d: "deref (store_of (runOnFunction this s F)) F = deref s F"
    using assms by (rule deref_runOnFunction)
  show ?thesis
    using visited_processWorkList [of "collectFunction (blocks (deref s F)) []"] c
    by (auto simp: dbgs_ret_runOnFunction d split: sum.splits)
qed

theorem work_list_is_the_GEPs_in_order_witness:
  "snd (0 :: nat, 1 :: nat) < length (FunctionList (example_store example_body (getParent (0, 1)))) \<and>
   map GetElementPtrInst (collectFunction (blocks (deref (example_store example_body) (0, 0))) []) =
     [GetElementPtrInst gep_in_bounds, GetElementPtrInst gep_out_of_bounds, GetElementPtrInst gep_pointer] \<and>
   collectFunction (blocks (deref (example_store example_body) (0, 1))) [] = [] \<and>
   ret (runOnFunction BoundsCheck (example_store example_body) (0, 1)) = Inr False \<and>
   visited (dbgs (runOnFunction BoundsCheck (example_store example_body) (0, 1))) = []"
proof -
  have h0: "snd (0 :: nat, 0 :: nat) < length (FunctionList (example_store example_body (getParent (0, 0))))"
   and h1: "snd (0 :: nat, 1 :: nat) < length (FunctionList (example_store example_body (getParent (0, 1))))"
    by (simp_all add: example_store_def getParent_def)
  have r: "ret (runOnFunction BoundsCheck (example_store example_body) (0, 1)) = Inr False"
    by (simp add: run_examples)
  show ?thesis
    using work_list_is_the_GEPs_in_order
        [where F = "(0, 0)" and s = "example_store example_body" and this = BoundsCheck, OF h0]
      work_list_is_the_GEPs_in_order
        [where F = "(0, 1)" and s = "example_store example_body" and this = BoundsCheck, OF h1] h1 r
    by (simp add: store_examples)
qed

text \<open>
  C10.  The claim: when all indices are constant, the downcast of the last index operand
  succeeds, so line 78 never dereferences null.  This holds when there is an index
  (lemma \<open>constant_indices_downcast\<close>).  With no index the guard of line 75 holds,
  operand number \<^verbatim>\<open>getNumIndices()\<close> is operand 0, the base pointer, the downcast gives
  null, and line 78 dereferences it.
\<close>

theorem downcast_fails_without_index:
  "hasAllConstantIndices gep_no_index \<and>
   getOperand gep_no_index (getNumIndices gep_no_index) = NonConstantInt (pointerOperand gep_no_index) \<and>
   dyn_cast_ConstantInt (getOperand gep_no_index (getNumIndices gep_no_index)) = None \<and>
   snd (recoverDesiredIndex gep_no_index) = Inl NullDereference"
  by (simp add: gep_no_index_def eval_defs)

end
